theory Spec2Isabelle
  imports Complex_Main
begin

section \<open>Subtitle service: cue timing and caption muxing\<close>

text \<open>
  A shallow embedding of \<^verbatim>\<open>backend/services/subtitleService.js\<close>.

  Conventions of the embedding.
  \<^item> A JavaScript number is an exact rational (\<^typ>\<open>rat\<close>): IEEE rounding, NaN and the
    infinities are outside the model. Where the double arithmetic of
    \<^verbatim>\<open>(seconds % 1) * 1000\<close> lands just below the exact value (as for \<open>1.2\<close> seconds), the
    source prints a millisecond field one lower than \<open>formatTime\<close> does here (\<open>199\<close> for
    \<open>200\<close>); order and equality of times are not affected. \<^verbatim>\<open>Math.min\<close> is \<^const>\<open>min\<close>, \<^verbatim>\<open>Math.floor\<close> is
    \<^const>\<open>floor\<close>.
  \<^item> A JavaScript string is a \<^typ>\<open>string\<close>, one \<^typ>\<open>char\<close> per code unit below 256.
  \<^item> A rejected promise or a thrown exception is the \<open>Inl\<close> branch of a sum.
\<close>

subsection \<open>Strings\<close>

text \<open>The character class \<^verbatim>\<open>[.!?]\<close>.\<close>

definition is_delim :: "char \<Rightarrow> bool" where
  "is_delim c = (c = CHR ''.'' \<or> c = CHR ''!'' \<or> c = CHR ''?'')"

text \<open>
  The character class \<^verbatim>\<open>\s\<close>, which is also what \<^verbatim>\<open>trim()\<close> strips: tab, line feed,
  vertical tab, form feed, carriage return, space and no-break space (the members below 256).
\<close>

definition is_space :: "char \<Rightarrow> bool" where
  "is_space c =
     (c \<in> set [CHR 0x09, CHR 0x0A, CHR 0x0B, CHR 0x0C, CHR 0x0D, CHR 0x20, CHR 0xA0])"

text \<open>
  \<^verbatim>\<open>s.split(/[P]+/)\<close> for a character class \<open>P\<close>: the pieces between the maximal runs of
  \<open>P\<close>-characters. A run at the very start or end yields an empty first or last piece, and the
  empty string yields one empty piece.
\<close>

function split_plus :: "(char \<Rightarrow> bool) \<Rightarrow> string \<Rightarrow> string list" where
  "split_plus P [] = [[]]"
| "split_plus P (c # cs) =
     (if P c then [] # split_plus P (dropWhile P cs)
      else (case split_plus P cs of [] \<Rightarrow> [[c]] | w # ws \<Rightarrow> (c # w) # ws))"
  by pat_completeness auto
termination
  by (relation "measure (\<lambda>(P, s). length s)")
     (auto simp: le_imp_less_Suc length_dropWhile_le)

text \<open>\<^verbatim>\<open>s.trim()\<close>.\<close>

definition trim :: "string \<Rightarrow> string" where
  "trim s = rev (dropWhile is_space (rev (dropWhile is_space s)))"

text \<open>
  \<^verbatim>\<open>n.toString()\<close> for an integer-valued number: decimal digits, with a minus sign for a
  negative one (JavaScript switches to exponent notation from \<open>10^21\<close> on, which the model
  does not).
\<close>

fun digits :: "nat \<Rightarrow> string" where
  "digits n =
     (if n < 10 then [''0123456789'' ! n]
      else digits (n div 10) @ [''0123456789'' ! (n mod 10)])"

declare digits.simps [simp del]

definition toString :: "int \<Rightarrow> string" where
  "toString n = (if n < 0 then CHR ''-'' # digits (nat (- n)) else digits (nat n))"

text \<open>\<^verbatim>\<open>s.padStart(n, c)\<close> for a one-character pad string.\<close>

definition padStart :: "nat \<Rightarrow> char \<Rightarrow> string \<Rightarrow> string" where
  "padStart n c s = replicate (n - length s) c @ s"

subsection \<open>Numbers\<close>

text \<open>
  The remainder operator \<^verbatim>\<open>x % y\<close> on numbers: the quotient is truncated towards zero, so
  the result has the sign of \<open>x\<close>. The divisors in this file are the constants 3600, 60 and 1.
\<close>

definition js_trunc :: "rat \<Rightarrow> int" where
  "js_trunc x = (if 0 \<le> x then \<lfloor>x\<rfloor> else \<lceil>x\<rceil>)"

definition js_rem :: "rat \<Rightarrow> rat \<Rightarrow> rat" where
  "js_rem x y = x - y * of_int (js_trunc (x / y))"

subsection \<open>The cue timer: \<^verbatim>\<open>createSmartSubtitles\<close>\<close>

text \<open>
  The expression \<^verbatim>\<open>scriptText.split(/[.!?]+/).map(s => s.trim()).filter(s => s.length > 0)\<close>.
\<close>

definition split_sentences :: "string \<Rightarrow> string list" where
  "split_sentences scriptText =
     filter (\<lambda>s. length s > 0) (map trim (split_plus is_delim scriptText))"

text \<open>\<^verbatim>\<open>sentence.split(/\s+/).length\<close>.\<close>

definition word_count :: "string \<Rightarrow> nat" where
  "word_count sentence = length (split_plus is_space sentence)"

definition wordsPerMinute :: rat where
  "wordsPerMinute = 180"

text \<open>
  The local function \<^verbatim>\<open>formatTime\<close>; it closes over \<^verbatim>\<open>format\<close>, which is a parameter here.
\<close>

definition formatTime :: "string \<Rightarrow> rat \<Rightarrow> string" where
  "formatTime format seconds =
     (let hours = \<lfloor>seconds / 3600\<rfloor>;
          minutes = \<lfloor>js_rem seconds 3600 / 60\<rfloor>;
          secs = \<lfloor>js_rem seconds 60\<rfloor>;
          milliseconds = \<lfloor>js_rem seconds 1 * 1000\<rfloor>
      in if format = ''srt''
         then padStart 2 (CHR ''0'') (toString hours) @ '':'' @
              padStart 2 (CHR ''0'') (toString minutes) @ '':'' @
              padStart 2 (CHR ''0'') (toString secs) @ '','' @
              padStart 3 (CHR ''0'') (toString milliseconds)
         else padStart 2 (CHR ''0'') (toString hours) @ '':'' @
              padStart 2 (CHR ''0'') (toString minutes) @ '':'' @
              padStart 2 (CHR ''0'') (toString secs) @ ''.'' @
              padStart 3 (CHR ''0'') (toString milliseconds))"

text \<open>
  The body of \<^verbatim>\<open>sentences.forEach((sentence, index) => ...)\<close>: the state is the pair of the
  two variables the callback assigns, \<^verbatim>\<open>subtitles\<close> and \<^verbatim>\<open>currentTime\<close>.
\<close>

fun forEach_sentence ::
  "string \<Rightarrow> rat \<Rightarrow> string list \<Rightarrow> nat \<Rightarrow> string \<times> rat \<Rightarrow> string \<times> rat" where
  "forEach_sentence format videoDuration [] index (subtitles, currentTime) =
     (subtitles, currentTime)"
| "forEach_sentence format videoDuration (sentence # rest) index (subtitles, currentTime) =
     (let words = word_count sentence;
          sentenceDuration = (of_nat words / wordsPerMinute) * 60 * 1.2;
          endTime = min (currentTime + sentenceDuration) videoDuration;
          subtitles1 =
            (if format = ''srt''
             then subtitles @ toString (int index + 1) @ ''\<newline>''
             else subtitles);
          subtitles2 =
            subtitles1 @ formatTime format currentTime @ '' --> '' @
            formatTime format endTime @ ''\<newline>'';
          subtitles3 = subtitles2 @ trim sentence @ ''\<newline>\<newline>''
      in forEach_sentence format videoDuration rest (index + 1) (subtitles3, endTime + 0.5))"

text \<open>
  \<^verbatim>\<open>createSmartSubtitles(scriptText, videoDuration, format)\<close>. The source also computes
  \<^verbatim>\<open>totalWords\<close>, \<^verbatim>\<open>estimatedReadingTime\<close> and \<^verbatim>\<open>effectiveDuration\<close> and never reads
  them; they are kept as bindings.
\<close>

definition createSmartSubtitles :: "string \<Rightarrow> rat \<Rightarrow> string \<Rightarrow> string" where
  "createSmartSubtitles scriptText videoDuration format =
     (let sentences = split_sentences scriptText
      in if length sentences = 0
         then (if format = ''srt'' then '''' else ''WEBVTT\<newline>\<newline>'')
         else
           (let totalWords = length (split_plus is_space scriptText);
                estimatedReadingTime = (of_nat totalWords / wordsPerMinute) * 60;
                effectiveDuration = min videoDuration (estimatedReadingTime * 1.2);
                subtitles = (if format = ''vtt'' then ''WEBVTT\<newline>\<newline>'' else '''');
                currentTime = 0
            in fst (forEach_sentence format videoDuration sentences 0
                      (subtitles, currentTime))))"

subsection \<open>The cues of a run\<close>

text \<open>
  The source never builds a cue value; a cue is what one iteration of the loop writes: the
  index line (in SRT), the two times and the text. \<open>smart_cues\<close> collects, iteration by
  iteration, the values the loop body computes; \<open>forEach_sentence_cues\<close> below shows that the
  loop's output is the rendering of exactly these cues.
\<close>

record cue =
  cue_index :: nat
  cue_start :: rat
  cue_end :: rat
  cue_text :: string

fun smart_cues :: "rat \<Rightarrow> string list \<Rightarrow> nat \<Rightarrow> rat \<Rightarrow> cue list" where
  "smart_cues videoDuration [] index currentTime = []"
| "smart_cues videoDuration (sentence # rest) index currentTime =
     (let words = word_count sentence;
          sentenceDuration = (of_nat words / wordsPerMinute) * 60 * 1.2;
          endTime = min (currentTime + sentenceDuration) videoDuration
      in \<lparr>cue_index = index + 1, cue_start = currentTime, cue_end = endTime,
           cue_text = trim sentence\<rparr>
         # smart_cues videoDuration rest (index + 1) (endTime + 0.5))"

definition cues_of :: "string \<Rightarrow> rat \<Rightarrow> cue list" where
  "cues_of scriptText videoDuration =
     smart_cues videoDuration (split_sentences scriptText) 0 0"

text \<open>What one iteration appends for a cue.\<close>

definition index_line :: "string \<Rightarrow> cue \<Rightarrow> string" where
  "index_line format c =
     (if format = ''srt'' then toString (int (cue_index c)) @ ''\<newline>'' else '''')"

definition time_line :: "string \<Rightarrow> cue \<Rightarrow> string" where
  "time_line format c =
     formatTime format (cue_start c) @ '' --> '' @ formatTime format (cue_end c) @ ''\<newline>''"

definition text_line :: "cue \<Rightarrow> string" where
  "text_line c = cue_text c @ ''\<newline>\<newline>''"

definition cue_block :: "string \<Rightarrow> cue \<Rightarrow> string" where
  "cue_block format c = index_line format c @ time_line format c @ text_line c"

subsection \<open>The serializers as the specification words them\<close>

text \<open>
  The time of day \<open>HH:MM:SS\<close> and the milliseconds \<open>mmm\<close>, shared by both formats; the
  formats differ in the separator between them.
\<close>

definition clock :: "rat \<Rightarrow> string" where
  "clock seconds =
     padStart 2 (CHR ''0'') (toString \<lfloor>seconds / 3600\<rfloor>) @ '':'' @
     padStart 2 (CHR ''0'') (toString \<lfloor>js_rem seconds 3600 / 60\<rfloor>) @ '':'' @
     padStart 2 (CHR ''0'') (toString \<lfloor>js_rem seconds 60\<rfloor>)"

definition msec :: "rat \<Rightarrow> string" where
  "msec seconds = padStart 3 (CHR ''0'') (toString \<lfloor>js_rem seconds 1 * 1000\<rfloor>)"

definition stamp :: "char \<Rightarrow> rat \<Rightarrow> string" where
  "stamp sep seconds = clock seconds @ [sep] @ msec seconds"

text \<open>
  SRT: per cue the 1-based index, \<open>HH:MM:SS,mmm --> HH:MM:SS,mmm\<close>, the text, a blank line.
\<close>

definition srt_block :: "cue \<Rightarrow> string" where
  "srt_block c =
     toString (int (cue_index c)) @ ''\<newline>'' @
     stamp (CHR '','') (cue_start c) @ '' --> '' @ stamp (CHR '','') (cue_end c) @ ''\<newline>'' @
     cue_text c @ ''\<newline>\<newline>''"

definition serialize_srt :: "cue list \<Rightarrow> string" where
  "serialize_srt cs = concat (map srt_block cs)"

text \<open>
  VTT: the header \<open>WEBVTT\<close> and a blank line, then per cue \<open>HH:MM:SS.mmm --> HH:MM:SS.mmm\<close>,
  the text, a blank line.
\<close>

definition vtt_block :: "cue \<Rightarrow> string" where
  "vtt_block c =
     stamp (CHR ''.'') (cue_start c) @ '' --> '' @ stamp (CHR ''.'') (cue_end c) @ ''\<newline>'' @
     cue_text c @ ''\<newline>\<newline>''"

definition serialize_vtt :: "cue list \<Rightarrow> string" where
  "serialize_vtt cs = ''WEBVTT\<newline>\<newline>'' @ concat (map vtt_block cs)"

text \<open>
  An output put together from given index-and-time lines and given texts, with the header
  logic of \<^verbatim>\<open>createSmartSubtitles\<close>.
\<close>

definition with_texts :: "string \<Rightarrow> string list \<Rightarrow> string list \<Rightarrow> string" where
  "with_texts format stamps texts =
     (if texts = []
      then (if format = ''srt'' then '''' else ''WEBVTT\<newline>\<newline>'')
      else (if format = ''vtt'' then ''WEBVTT\<newline>\<newline>'' else '''') @
           concat (map2 (\<lambda>l t. l @ t @ ''\<newline>\<newline>'') stamps texts))"

subsection \<open>The file system and the transcoding engine\<close>

text \<open>
  The muxing functions act on the file system and on an external \<^verbatim>\<open>ffmpeg\<close> process. The
  file system is a map from paths to contents (directories, and so \<^verbatim>\<open>mkdirSync\<close>, are not
  modelled). What the external process does is a parameter: for each of its three
  invocations it decides the event that ends the invocation and the files it leaves behind.
  A world also records, in order, the calls made, which is what the console markers of the
  source trace.
\<close>

type_synonym path = string

type_synonym fs = "path \<rightharpoonup> string"

datatype error =
    VideoFileNotFound path
  | SubtitleFileNotFound path
  | BasicFFmpegTestFailed string
  | BurnTimeout
  | SoftTimeout
  | OutputNotCreated
  | EngineError string
  | WriteError path
  | CopyError path

text \<open>
  How an \<^verbatim>\<open>ffmpeg\<close> run ends: its \<^verbatim>\<open>end\<close> event, its \<^verbatim>\<open>error\<close> event with the
  message, or the timer of the caller (600 s for burning, 300 s for the soft track) firing
  first.
\<close>

datatype outcome = Ended | Errored string | TimedOut

record platform =
  write_ok :: "path \<Rightarrow> bool"
  ffmpeg_test :: "path \<Rightarrow> fs \<Rightarrow> string option"
  ffmpeg_burn :: "path \<Rightarrow> path \<Rightarrow> path \<Rightarrow> fs \<Rightarrow> outcome \<times> fs"
  ffmpeg_soft :: "path \<Rightarrow> path \<Rightarrow> path \<Rightarrow> fs \<Rightarrow> outcome \<times> fs"

datatype call =
    WriteCall path
  | BurnCall
  | SoftCall
  | CopyCall path path
  | EngineTest
  | EngineBurn
  | EngineSoft

record world =
  files :: fs
  calls :: "call list"

definition logged :: "call \<Rightarrow> world \<Rightarrow> world" where
  "logged c w = w\<lparr>calls := calls w @ [c]\<rparr>"

text \<open>\<^verbatim>\<open>fs.existsSync(p)\<close>.\<close>

definition existsSync :: "world \<Rightarrow> path \<Rightarrow> bool" where
  "existsSync w p = (files w p \<noteq> None)"

text \<open>
  \<^verbatim>\<open>path.join(dir, name)\<close>, for a normalised, non-empty \<open>dir\<close> without a trailing separator
  (the normalisation that \<^verbatim>\<open>path.join\<close> performs is not modelled: for \<open>./out\<close> the source
  yields \<open>out/name\<close>). The properties below use the joined path only as the name of a file.
\<close>

definition path_join :: "path \<Rightarrow> string \<Rightarrow> path" where
  "path_join dir name = dir @ ''/'' @ name"

text \<open>\<^verbatim>\<open>subtitlePath.replace(/\\/g, '/')\<close>.\<close>

definition forward_slashes :: "path \<Rightarrow> path" where
  "forward_slashes p = map (\<lambda>c. if c = CHR 0x5C then CHR ''/'' else c) p"

text \<open>\<^verbatim>\<open>saveSubtitleFile\<close>: \<^verbatim>\<open>fs.writeFile\<close> either stores the content or reports an error.\<close>

definition saveSubtitleFile ::
  "platform \<Rightarrow> string \<Rightarrow> path \<Rightarrow> world \<Rightarrow> (error + path) \<times> world" where
  "saveSubtitleFile P subtitleContent outputPath w =
     (let w0 = logged (WriteCall outputPath) w
      in if write_ok P outputPath
         then (Inr outputPath, w0\<lparr>files := (files w0)(outputPath \<mapsto> subtitleContent)\<rparr>)
         else (Inl (WriteError outputPath), w0))"

text \<open>\<^verbatim>\<open>fs.copyFileSync(src, dst)\<close>: throws when the source is missing or the target unwritable.\<close>

definition copyFileSync :: "platform \<Rightarrow> path \<Rightarrow> path \<Rightarrow> world \<Rightarrow> (error + unit) \<times> world" where
  "copyFileSync P src dst w =
     (let w0 = logged (CopyCall src dst) w
      in case files w0 src of
           None \<Rightarrow> (Inl (CopyError src), w0)
         | Some content \<Rightarrow>
             if write_ok P dst
             then (Inr (), w0\<lparr>files := (files w0)(dst \<mapsto> content)\<rparr>)
             else (Inl (CopyError dst), w0))"

subsection \<open>The rendering strategies\<close>

text \<open>
  \<^verbatim>\<open>burnSubtitlesIntoVideo(videoPath, subtitlePath, outputPath, options)\<close>; the source never
  reads \<^verbatim>\<open>options\<close>. The promise's resolution is \<open>Inr\<close>, its rejection \<open>Inl\<close>.
\<close>

definition burnSubtitlesIntoVideo ::
  "platform \<Rightarrow> path \<Rightarrow> path \<Rightarrow> path \<Rightarrow> world \<Rightarrow> (error + path) \<times> world" where
  "burnSubtitlesIntoVideo P videoPath subtitlePath outputPath w =
     (let w0 = logged BurnCall w
      in if \<not> existsSync w0 videoPath then (Inl (VideoFileNotFound videoPath), w0)
         else if \<not> existsSync w0 subtitlePath then (Inl (SubtitleFileNotFound subtitlePath), w0)
         else
           (let w1 = logged EngineTest w0
            in case ffmpeg_test P videoPath (files w1) of
                 Some message \<Rightarrow> (Inl (BasicFFmpegTestFailed message), w1)
               | None \<Rightarrow>
                   (let w2 = logged EngineBurn w1;
                        (ending, files') =
                          ffmpeg_burn P videoPath (forward_slashes subtitlePath) outputPath
                            (files w2);
                        w3 = w2\<lparr>files := files'\<rparr>
                    in case ending of
                         Ended \<Rightarrow>
                           if existsSync w3 outputPath then (Inr outputPath, w3)
                           else (Inl OutputNotCreated, w3)
                       | Errored err \<Rightarrow> (Inl (EngineError err), w3)
                       | TimedOut \<Rightarrow> (Inl BurnTimeout, w3))))"

text \<open>
  \<^verbatim>\<open>addSoftSubtitles(videoPath, subtitlePath, outputPath, language)\<close>; every call in the
  source leaves \<^verbatim>\<open>language\<close> at its default.
\<close>

definition addSoftSubtitles ::
  "platform \<Rightarrow> path \<Rightarrow> path \<Rightarrow> path \<Rightarrow> world \<Rightarrow> (error + path) \<times> world" where
  "addSoftSubtitles P videoPath subtitlePath outputPath w =
     (let w0 = logged SoftCall w
      in if \<not> existsSync w0 videoPath then (Inl (VideoFileNotFound videoPath), w0)
         else if \<not> existsSync w0 subtitlePath then (Inl (SubtitleFileNotFound subtitlePath), w0)
         else
           (let w1 = logged EngineSoft w0;
                (ending, files') = ffmpeg_soft P videoPath subtitlePath outputPath (files w1);
                w2 = w1\<lparr>files := files'\<rparr>
            in case ending of
                 Ended \<Rightarrow>
                   if existsSync w2 outputPath then (Inr outputPath, w2)
                   else (Inl OutputNotCreated, w2)
               | Errored err \<Rightarrow> (Inl (EngineError err), w2)
               | TimedOut \<Rightarrow> (Inl SoftTimeout, w2)))"

subsection \<open>The pipeline: \<^verbatim>\<open>processSubtitles\<close>\<close>

text \<open>
  The destructured \<^verbatim>\<open>options\<close>; \<^verbatim>\<open>styling\<close> is only handed to
  \<^verbatim>\<open>burnSubtitlesIntoVideo\<close>, which ignores it. \<^verbatim>\<open>videoPath\<close> is \<open>None\<close> for \<^verbatim>\<open>null\<close>.
\<close>

record options =
  opt_format :: string
  addToVideo :: bool
  videoPath :: "path option"
  subtitleType :: string

definition default_options :: options where
  "default_options =
     \<lparr>opt_format = ''srt'', addToVideo = False, videoPath = None, subtitleType = ''hard''\<rparr>"

text \<open>The truthiness of \<^verbatim>\<open>videoPath\<close>: neither \<^verbatim>\<open>null\<close> nor the empty string.\<close>

definition truthy :: "path option \<Rightarrow> bool" where
  "truthy p = (case p of None \<Rightarrow> False | Some s \<Rightarrow> s \<noteq> [])"

text \<open>
  The returned object, as its properties in insertion order. Assigning
  \<^verbatim>\<open>result.videoWithSubtitles\<close> adds a property, since the object literal has none of that
  name.
\<close>

type_synonym result = "(string \<times> string) list"

definition processSubtitles ::
  "platform \<Rightarrow> string \<Rightarrow> rat \<Rightarrow> path \<Rightarrow> string \<Rightarrow> options \<Rightarrow> world \<Rightarrow> (error + result) \<times> world"
  where
  "processSubtitles P scriptText videoDuration outputDir videoId opts w =
     (let format = opt_format opts;
          subtitleContent = createSmartSubtitles scriptText videoDuration format;
          subtitleFileName = videoId @ ''_subtitles.'' @ format;
          subtitlePath = path_join outputDir subtitleFileName
      in case saveSubtitleFile P subtitleContent subtitlePath w of
           (Inl err, w1) \<Rightarrow> (Inl err, w1)
         | (Inr _, w1) \<Rightarrow>
             (let result = [(''subtitlePath'', subtitlePath),
                            (''subtitleContent'', subtitleContent),
                            (''format'', format)]
              in if addToVideo opts \<and> truthy (videoPath opts)
                 then
                   (let video = the (videoPath opts);
                        outputVideoPath = path_join outputDir (videoId @ ''_with_subtitles.mp4'');
                        result' = result @ [(''videoWithSubtitles'', outputVideoPath)]
                    in if subtitleType opts = ''soft''
                       then
                         (case addSoftSubtitles P video subtitlePath outputVideoPath w1 of
                            (Inr _, w2) \<Rightarrow> (Inr result', w2)
                          | (Inl _, w2) \<Rightarrow>
                              (case copyFileSync P video outputVideoPath w2 of
                                 (Inl err, w3) \<Rightarrow> (Inl err, w3)
                               | (Inr _, w3) \<Rightarrow> (Inr result', w3)))
                       else
                         (case burnSubtitlesIntoVideo P video subtitlePath outputVideoPath w1 of
                            (Inr _, w2) \<Rightarrow> (Inr result', w2)
                          | (Inl _, w2) \<Rightarrow>
                              (case addSoftSubtitles P video subtitlePath outputVideoPath w2 of
                                 (Inr _, w3) \<Rightarrow> (Inr result', w3)
                               | (Inl _, w3) \<Rightarrow>
                                   (case copyFileSync P video outputVideoPath w3 of
                                      (Inl err, w4) \<Rightarrow> (Inl err, w4)
                                    | (Inr _, w4) \<Rightarrow> (Inr result', w4)))))
                 else (Inr result, w1)))"

text \<open>\<^verbatim>\<open>result[name]\<close> on what \<^verbatim>\<open>processSubtitles\<close> returned; \<open>None\<close> is \<^verbatim>\<open>undefined\<close>.\<close>

definition property :: "string \<Rightarrow> result \<Rightarrow> string option" where
  "property name r = map_of r name"

text \<open>The calls that start a rendering strategy or the final copy.\<close>

fun is_strategy :: "call \<Rightarrow> bool" where
  "is_strategy BurnCall = True"
| "is_strategy SoftCall = True"
| "is_strategy (CopyCall src dst) = True"
| "is_strategy c = False"

subsection \<open>Engines used as examples\<close>

text \<open>An engine whose self-test passes and whose two renderings both end in an error.\<close>

definition failing_engine :: platform where
  "failing_engine =
     \<lparr>write_ok = (\<lambda>p. True),
      ffmpeg_test = (\<lambda>v fs. None),
      ffmpeg_burn = (\<lambda>v s out fs. (Errored ''burn failed'', fs)),
      ffmpeg_soft = (\<lambda>v s out fs. (Errored ''soft failed'', fs))\<rparr>"

text \<open>An engine that fails to burn and succeeds in attaching a soft track.\<close>

definition soft_only_engine :: platform where
  "soft_only_engine =
     \<lparr>write_ok = (\<lambda>p. True),
      ffmpeg_test = (\<lambda>v fs. None),
      ffmpeg_burn = (\<lambda>v s out fs. (Errored ''burn failed'', fs)),
      ffmpeg_soft = (\<lambda>v s out fs. (Ended, fs(out \<mapsto> ''MUXED'')))\<rparr>"

text \<open>A world that holds one source video, and one that holds nothing.\<close>

definition one_video :: world where
  "one_video = \<lparr>files = [''in.mp4'' \<mapsto> ''VIDEO''], calls = []\<rparr>"

definition no_files :: world where
  "no_files = \<lparr>files = Map.empty, calls = []\<rparr>"

definition hard_options :: options where
  "hard_options =
     \<lparr>opt_format = ''srt'', addToVideo = True, videoPath = Some ''in.mp4'',
      subtitleType = ''hard''\<rparr>"

section \<open>Properties of the cue timer\<close>



lemma forEach_sentence_cues:
  "fst (forEach_sentence format videoDuration sentences index (subtitles, currentTime)) =
     subtitles @
     concat (map (cue_block format) (smart_cues videoDuration sentences index currentTime))"
proof (induction sentences arbitrary: index subtitles currentTime)
  case Nil
  show ?case by simp
next
  case (Cons sentence rest)
  show ?case
    by (simp add: Cons.IH Let_def cue_block_def index_line_def time_line_def text_line_def
        add.commute)
qed

lemma smart_cues_Nil_iff: "smart_cues V ss i t = [] \<longleftrightarrow> ss = []"
  by (cases ss) (simp_all add: Let_def)


lemma createSmartSubtitles_cues:
  "createSmartSubtitles scriptText videoDuration format =
     (if cues_of scriptText videoDuration = []
      then (if format = ''srt'' then '''' else ''WEBVTT\<newline>\<newline>'')
      else (if format = ''vtt'' then ''WEBVTT\<newline>\<newline>'' else '''') @
           concat (map (cue_block format) (cues_of scriptText videoDuration)))"
  by (simp add: createSmartSubtitles_def cues_of_def Let_def smart_cues_Nil_iff
      forEach_sentence_cues)







lemma smart_cues_timing_only:
  "map word_count ss1 = map word_count ss2 \<Longrightarrow>
     map (\<lambda>c. (cue_index c, cue_start c, cue_end c)) (smart_cues V ss1 i t) =
     map (\<lambda>c. (cue_index c, cue_start c, cue_end c)) (smart_cues V ss2 i t)"
proof (induction ss1 arbitrary: ss2 i t)
  case Nil
  then show ?case by simp
next
  case (Cons s ss1)
  then obtain s' ss2' where ss2: "ss2 = s' # ss2'" and wc: "word_count s = word_count s'"
    and rest: "map word_count ss1 = map word_count ss2'"
    by (cases ss2) auto
  from Cons.IH [OF rest] show ?case by (simp add: ss2 wc Let_def)
qed

lemma cue_block_srt: "cue_block ''srt'' = srt_block"
  by (rule ext) (simp add: cue_block_def index_line_def time_line_def text_line_def srt_block_def
      stamp_def clock_def msec_def formatTime_def Let_def)

lemma cue_block_vtt: "cue_block ''vtt'' = vtt_block"
  by (rule ext) (simp add: cue_block_def index_line_def time_line_def text_line_def vtt_block_def
      stamp_def clock_def msec_def formatTime_def Let_def)

lemma map_factor:
  assumes "map f xs = map f ys" and "\<And>x. g x = h (f x)"
  shows "map g xs = map g ys"
proof -
  have factor: "map g zs = map h (map f zs)" for zs
    by (induction zs) (simp_all add: assms(2))
  have "map g xs = map h (map f xs)" by (rule factor)
  also have "\<dots> = map h (map f ys)" by (simp only: assms(1))
  also have "\<dots> = map g ys" by (rule factor [symmetric])
  finally show ?thesis .
qed

lemma concat_blocks_with_texts:
  "concat (map (cue_block format) cs) =
     concat (map2 (\<lambda>l t. l @ t @ ''\<newline>\<newline>'')
       (map (\<lambda>c. index_line format c @ time_line format c) cs) (map cue_text cs))"
  by (induction cs) (simp_all add: cue_block_def text_line_def)

subsection \<open>The example of the specification\<close>

text \<open>
  Claim C2. For the script \<open>He runs. He jumps! Will he make it?\<close> and a duration of 10
  seconds the cue timer yields three cues, with the texts \<open>He runs\<close>, \<open>He jumps\<close>,
  \<open>Will he make it\<close>, the word counts 2, 2, 4 and the times \<open>(0, 0.8)\<close>, \<open>(1.3, 2.1)\<close>,
  \<open>(2.6, 4.2)\<close>; the SRT text it returns is the rendering of these three cues.
\<close>

theorem example_scenario:
  "split_sentences ''He runs. He jumps! Will he make it?'' =
     [''He runs'', ''He jumps'', ''Will he make it'']
   \<and> map word_count (split_sentences ''He runs. He jumps! Will he make it?'') = [2, 2, 4]
   \<and> cues_of ''He runs. He jumps! Will he make it?'' 10 =
     [\<lparr>cue_index = 1, cue_start = 0, cue_end = 0.8, cue_text = ''He runs''\<rparr>,
      \<lparr>cue_index = 2, cue_start = 1.3, cue_end = 2.1, cue_text = ''He jumps''\<rparr>,
      \<lparr>cue_index = 3, cue_start = 2.6, cue_end = 4.2, cue_text = ''Will he make it''\<rparr>]
   \<and> createSmartSubtitles ''He runs. He jumps! Will he make it?'' 10 ''srt'' =
     ''1\<newline>00:00:00,000 --> 00:00:00,800\<newline>He runs\<newline>\<newline>2\<newline>00:00:01,300 --> 00:00:02,100\<newline>He jumps\<newline>\<newline>3\<newline>00:00:02,600 --> 00:00:04,200\<newline>Will he make it\<newline>\<newline>''"
  by code_simp

subsection \<open>The shape of a cue\<close>




subsection \<open>Containment in the video\<close>



subsection \<open>No overlap\<close>



subsection \<open>A script without sentences\<close>

text \<open>
  Claim C6. When splitting, trimming and filtering leaves no sentence, the function returns
  the empty string for \<open>srt\<close> and the bare header for \<open>vtt\<close>; being a total function it
  raises nothing.
\<close>

theorem empty_script:
  assumes "split_sentences scriptText = []"
  shows "createSmartSubtitles scriptText videoDuration ''srt'' = ''''
       \<and> createSmartSubtitles scriptText videoDuration ''vtt'' = ''WEBVTT\<newline>\<newline>''"
  using assms by (simp add: createSmartSubtitles_def)

theorem empty_script_witness:
  "split_sentences '' ..!  ?'' = []
   \<and> createSmartSubtitles '' ..!  ?'' 10 ''srt'' = ''''
   \<and> createSmartSubtitles '' ..!  ?'' 10 ''vtt'' = ''WEBVTT\<newline>\<newline>''"
proof -
  have h: "split_sentences '' ..!  ?'' = []" by code_simp
  from empty_script [OF h, of 10] h show ?thesis by simp
qed

subsection \<open>The two formats\<close>

text \<open>
  Claim C9. Both outputs are serializations of one and the same cue sequence: the SRT output
  is \<open>serialize_srt\<close> of it and the VTT output is \<open>serialize_vtt\<close> of it, and these two
  serializers differ in the header, the index line and the separator before the
  milliseconds, and in nothing else.
\<close>

theorem srt_vtt_same_cues:
  "createSmartSubtitles scriptText videoDuration ''srt''
     = serialize_srt (cues_of scriptText videoDuration)
   \<and> createSmartSubtitles scriptText videoDuration ''vtt''
     = serialize_vtt (cues_of scriptText videoDuration)"
  by (simp add: createSmartSubtitles_cues serialize_srt_def serialize_vtt_def
      cue_block_srt cue_block_vtt)

subsection \<open>Timing depends on word counts only\<close>

text \<open>
  Claim C10. Two scripts whose sentences have, position by position, the same word counts
  get the same start and end times and the same time lines; the output for the second script
  consists of the index and time lines of the first and the texts of the second.
\<close>

theorem timing_from_word_counts:
  assumes "map word_count (split_sentences s1) = map word_count (split_sentences s2)"
  shows "map cue_start (cues_of s1 V) = map cue_start (cues_of s2 V)
       \<and> map cue_end (cues_of s1 V) = map cue_end (cues_of s2 V)
       \<and> map (time_line format) (cues_of s1 V) = map (time_line format) (cues_of s2 V)
       \<and> createSmartSubtitles s2 V format =
           with_texts format (map (\<lambda>c. index_line format c @ time_line format c) (cues_of s1 V))
             (map cue_text (cues_of s2 V))"
proof -
  let ?t = "\<lambda>c. (cue_index c, cue_start c, cue_end c)"
  have eq: "map ?t (cues_of s1 V) = map ?t (cues_of s2 V)"
    unfolding cues_of_def by (rule smart_cues_timing_only [OF assms])
  have starts: "map cue_start (cues_of s1 V) = map cue_start (cues_of s2 V)"
    by (rule map_factor [OF eq, where h = "\<lambda>(i, s, e). s"]) simp
  have ends: "map cue_end (cues_of s1 V) = map cue_end (cues_of s2 V)"
    by (rule map_factor [OF eq, where h = "\<lambda>(i, s, e). e"]) simp
  have lines: "map (time_line format) (cues_of s1 V) = map (time_line format) (cues_of s2 V)"
    by (rule map_factor [OF eq, where h = "\<lambda>(i, s, e).
          formatTime format s @ '' --> '' @ formatTime format e @ ''\<newline>''"])
       (simp add: time_line_def)
  have stamps: "map (\<lambda>c. index_line format c @ time_line format c) (cues_of s1 V) =
                map (\<lambda>c. index_line format c @ time_line format c) (cues_of s2 V)"
    by (rule map_factor [OF eq, where h = "\<lambda>(i, s, e).
          (if format = ''srt'' then toString (int i) @ ''\<newline>'' else '''') @
          formatTime format s @ '' --> '' @ formatTime format e @ ''\<newline>''"])
       (simp add: index_line_def time_line_def)
  have "createSmartSubtitles s2 V format =
      with_texts format (map (\<lambda>c. index_line format c @ time_line format c) (cues_of s2 V))
        (map cue_text (cues_of s2 V))"
    by (simp add: createSmartSubtitles_cues with_texts_def concat_blocks_with_texts)
  with stamps starts ends lines show ?thesis by simp
qed

theorem timing_from_word_counts_witness:
  "map word_count (split_sentences ''He runs. He jumps!'') =
     map word_count (split_sentences ''Go away? Come back.'')
   \<and> map (time_line ''vtt'') (cues_of ''He runs. He jumps!'' 10) =
     map (time_line ''vtt'') (cues_of ''Go away? Come back.'' 10)
   \<and> ''He runs. He jumps!'' \<noteq> ''Go away? Come back.''"
proof -
  have h: "map word_count (split_sentences ''He runs. He jumps!'') =
     map word_count (split_sentences ''Go away? Come back.'')" by code_simp
  from timing_from_word_counts [OF h, of 10 "''vtt''"] h show ?thesis by simp
qed

section \<open>Properties of the muxing pipeline\<close>

lemma pair_from_fst: "fst x = a \<Longrightarrow> x = (a, snd x)"
  by auto

lemma saveSubtitleFile_strategies:
  "saveSubtitleFile P content p w = (r, w') \<Longrightarrow>
     filter is_strategy (calls w') = filter is_strategy (calls w)"
  by (auto simp: saveSubtitleFile_def logged_def Let_def split: if_splits)

lemma burn_strategies:
  "burnSubtitlesIntoVideo P v s out w = (r, w') \<Longrightarrow>
     filter is_strategy (calls w') = filter is_strategy (calls w) @ [BurnCall]"
  by (auto simp: burnSubtitlesIntoVideo_def logged_def Let_def
      split: if_splits option.splits prod.splits outcome.splits)

lemma soft_strategies:
  "addSoftSubtitles P v s out w = (r, w') \<Longrightarrow>
     filter is_strategy (calls w') = filter is_strategy (calls w) @ [SoftCall]"
  by (auto simp: addSoftSubtitles_def logged_def Let_def
      split: if_splits prod.splits outcome.splits)

lemma copy_strategies:
  "copyFileSync P src dst w = (r, w') \<Longrightarrow>
     filter is_strategy (calls w') = filter is_strategy (calls w) @ [CopyCall src dst]"
  by (auto simp: copyFileSync_def logged_def Let_def split: if_splits option.splits)

lemma copy_present:
  "files w src = Some data \<Longrightarrow> write_ok P dst \<Longrightarrow>
     copyFileSync P src dst w =
       (Inr (), w\<lparr>files := (files w)(dst \<mapsto> data), calls := calls w @ [CopyCall src dst]\<rparr>)"
  by (simp add: copyFileSync_def logged_def Let_def)

lemma copy_missing:
  "files w src = None \<Longrightarrow>
     copyFileSync P src dst w = (Inl (CopyError src), w\<lparr>calls := calls w @ [CopyCall src dst]\<rparr>)"
  by (simp add: copyFileSync_def logged_def Let_def)

lemma burn_missing:
  "files w v = None \<or> files w s = None \<Longrightarrow>
     burnSubtitlesIntoVideo P v s out w =
       (Inl (if files w v = None then VideoFileNotFound v else SubtitleFileNotFound s),
        w\<lparr>calls := calls w @ [BurnCall]\<rparr>)"
  by (auto simp: burnSubtitlesIntoVideo_def logged_def Let_def existsSync_def)

lemma soft_missing:
  "files w v = None \<or> files w s = None \<Longrightarrow>
     addSoftSubtitles P v s out w =
       (Inl (if files w v = None then VideoFileNotFound v else SubtitleFileNotFound s),
        w\<lparr>calls := calls w @ [SoftCall]\<rparr>)"
  by (auto simp: addSoftSubtitles_def logged_def Let_def existsSync_def)

subsection \<open>Both renderings fail\<close>

text \<open>
  Claim C1, as stated, asks for a \<open>degraded\<close> flag set to true on the result when burning
  and the soft track both fail. With an engine that fails both, the source video is copied to
  the output path, yet the returned object has the four properties of a successful run and
  no \<open>degraded\<close> property.
\<close>

theorem total_failure_counterexample:
  "fst (processSubtitles failing_engine ''Hi.'' 10 ''out'' ''v1'' hard_options one_video) =
     Inr [(''subtitlePath'', ''out/v1_subtitles.srt''),
          (''subtitleContent'', ''1\<newline>00:00:00,000 --> 00:00:00,400\<newline>Hi\<newline>\<newline>''),
          (''format'', ''srt''),
          (''videoWithSubtitles'', ''out/v1_with_subtitles.mp4'')]
   \<and> property ''degraded''
        [(''subtitlePath'', ''out/v1_subtitles.srt''),
         (''subtitleContent'', ''1\<newline>00:00:00,000 --> 00:00:00,400\<newline>Hi\<newline>\<newline>''),
         (''format'', ''srt''),
         (''videoWithSubtitles'', ''out/v1_with_subtitles.mp4'')] = None
   \<and> calls (snd (processSubtitles failing_engine ''Hi.'' 10 ''out'' ''v1'' hard_options
        one_video)) =
       [WriteCall ''out/v1_subtitles.srt'', BurnCall, EngineTest, EngineBurn, SoftCall,
        EngineSoft, CopyCall ''in.mp4'' ''out/v1_with_subtitles.mp4'']
   \<and> files (snd (processSubtitles failing_engine ''Hi.'' 10 ''out'' ''v1'' hard_options
        one_video)) ''out/v1_with_subtitles.mp4'' = Some ''VIDEO''"
  by code_simp

text \<open>
  Claim C1, amended. In hard mode, when burning and the soft track are both rejected and the
  source video can be copied, \<^verbatim>\<open>processSubtitles\<close> copies the source video unchanged to the
  output path and returns the object of a successful run: \<open>videoWithSubtitles\<close> is the
  output path and there is no \<open>degraded\<close> property.
\<close>

theorem total_failure_copies_without_flag:
  fixes P scriptText videoDuration outputDir videoId opts w
  defines "content \<equiv> createSmartSubtitles scriptText videoDuration (opt_format opts)"
    and "sp \<equiv> path_join outputDir (videoId @ ''_subtitles.'' @ opt_format opts)"
    and "out \<equiv> path_join outputDir (videoId @ ''_with_subtitles.mp4'')"
  assumes add: "addToVideo opts" and video: "videoPath opts = Some video" "video \<noteq> []"
    and hard: "subtitleType opts \<noteq> ''soft''"
    and save: "saveSubtitleFile P content sp w = (Inr sp, w1)"
    and burn: "burnSubtitlesIntoVideo P video sp out w1 = (Inl e1, w2)"
    and soft: "addSoftSubtitles P video sp out w2 = (Inl e2, w3)"
    and source: "files w3 video = Some data" and target: "write_ok P out"
  shows "processSubtitles P scriptText videoDuration outputDir videoId opts w =
           (Inr [(''subtitlePath'', sp), (''subtitleContent'', content),
                 (''format'', opt_format opts), (''videoWithSubtitles'', out)],
            w3\<lparr>files := (files w3)(out \<mapsto> data),
               calls := calls w3 @ [CopyCall video out]\<rparr>)
       \<and> property ''degraded''
            [(''subtitlePath'', sp), (''subtitleContent'', content),
             (''format'', opt_format opts), (''videoWithSubtitles'', out)] = None"
  using assms
  by (simp add: processSubtitles_def Let_def truthy_def copy_present property_def)

theorem total_failure_copies_without_flag_witness:
  "fst (burnSubtitlesIntoVideo failing_engine ''in.mp4''
          (path_join ''out'' (''v1'' @ ''_subtitles.'' @ opt_format hard_options))
          (path_join ''out'' (''v1'' @ ''_with_subtitles.mp4''))
          (snd (saveSubtitleFile failing_engine
                  (createSmartSubtitles ''Hi.'' 10 (opt_format hard_options))
                  (path_join ''out'' (''v1'' @ ''_subtitles.'' @ opt_format hard_options))
                  one_video)))
     = Inl (EngineError ''burn failed'')
   \<and> fst (processSubtitles failing_engine ''Hi.'' 10 ''out'' ''v1'' hard_options one_video) =
     Inr [(''subtitlePath'', ''out/v1_subtitles.srt''),
          (''subtitleContent'', createSmartSubtitles ''Hi.'' 10 ''srt''),
          (''format'', ''srt''),
          (''videoWithSubtitles'', ''out/v1_with_subtitles.mp4'')]"
proof -
  let ?P = failing_engine
  let ?content = "createSmartSubtitles ''Hi.'' 10 (opt_format hard_options)"
  let ?sp = "path_join ''out'' (''v1'' @ ''_subtitles.'' @ opt_format hard_options)"
  let ?out = "path_join ''out'' (''v1'' @ ''_with_subtitles.mp4'')"
  let ?s1 = "saveSubtitleFile ?P ?content ?sp one_video"
  let ?s2 = "burnSubtitlesIntoVideo ?P ''in.mp4'' ?sp ?out (snd ?s1)"
  let ?s3 = "addSoftSubtitles ?P ''in.mp4'' ?sp ?out (snd ?s2)"
  have o1: "addToVideo hard_options" by (simp add: hard_options_def)
  have o2: "videoPath hard_options = Some ''in.mp4''" by (simp add: hard_options_def)
  have o3: "''in.mp4'' \<noteq> []" by simp
  have o4: "subtitleType hard_options \<noteq> ''soft''" by (simp add: hard_options_def)
  have f1: "fst ?s1 = Inr ?sp" by code_simp
  have f2: "fst ?s2 = Inl (EngineError ''burn failed'')" by code_simp
  have f3: "fst ?s3 = Inl (EngineError ''soft failed'')" by code_simp
  have h1: "?s1 = (Inr ?sp, snd ?s1)" using f1 by (rule pair_from_fst)
  have h2: "?s2 = (Inl (EngineError ''burn failed''), snd ?s2)" using f2 by (rule pair_from_fst)
  have h3: "?s3 = (Inl (EngineError ''soft failed''), snd ?s3)" using f3 by (rule pair_from_fst)
  have h4: "files (snd ?s3) ''in.mp4'' = Some ''VIDEO''" by code_simp
  have h5: "write_ok ?P ?out" by (simp add: failing_engine_def)
  from total_failure_copies_without_flag [OF o1 o2 o3 o4 h1 h2 h3 h4 h5]
  have "fst (processSubtitles ?P ''Hi.'' 10 ''out'' ''v1'' hard_options one_video) =
      Inr [(''subtitlePath'', ?sp), (''subtitleContent'', ?content),
           (''format'', opt_format hard_options), (''videoWithSubtitles'', ?out)]"
    by simp
  with f2 show ?thesis by (simp add: path_join_def hard_options_def)
qed

subsection \<open>The order of the strategies\<close>

text \<open>
  Claim C7. In hard mode, once the subtitle file is saved, burning is called first. If it
  resolves, nothing else is tried. If it is rejected, the soft track is called; if that
  resolves, the copy is not made, and the result is the object of a successful run, with
  \<open>videoWithSubtitles\<close> the output path and no \<open>degraded\<close> property. Only if both are
  rejected is the source video copied to the output path. Here \<open>w2\<close>, \<open>w3\<close> and \<open>w4\<close> are
  the worlds after burning, after the soft track run in \<open>w2\<close>, and after the copy run in
  \<open>w3\<close>.
\<close>

theorem hard_mode_strategy_order:
  fixes P scriptText videoDuration outputDir videoId opts w
  defines "content \<equiv> createSmartSubtitles scriptText videoDuration (opt_format opts)"
    and "sp \<equiv> path_join outputDir (videoId @ ''_subtitles.'' @ opt_format opts)"
    and "out \<equiv> path_join outputDir (videoId @ ''_with_subtitles.mp4'')"
  defines "R \<equiv> [(''subtitlePath'', sp), (''subtitleContent'', content),
                 (''format'', opt_format opts), (''videoWithSubtitles'', out)]"
  assumes add: "addToVideo opts" and video: "videoPath opts = Some video" "video \<noteq> []"
    and hard: "subtitleType opts \<noteq> ''soft''"
    and save: "saveSubtitleFile P content sp w = (Inr sp, w1)"
    and burn: "burnSubtitlesIntoVideo P video sp out w1 = (rb, w2)"
    and soft: "addSoftSubtitles P video sp out w2 = (rs, w3)"
    and copy: "copyFileSync P video out w3 = (rc, w4)"
  shows "(rb = Inr p \<longrightarrow>
            processSubtitles P scriptText videoDuration outputDir videoId opts w = (Inr R, w2)
          \<and> filter is_strategy (calls w2) = filter is_strategy (calls w) @ [BurnCall])
       \<and> (rb = Inl e \<and> rs = Inr p' \<longrightarrow>
            processSubtitles P scriptText videoDuration outputDir videoId opts w = (Inr R, w3)
          \<and> filter is_strategy (calls w3) =
              filter is_strategy (calls w) @ [BurnCall, SoftCall])
       \<and> (rb = Inl e \<and> rs = Inl e' \<longrightarrow>
            processSubtitles P scriptText videoDuration outputDir videoId opts w =
              (case rc of Inl err \<Rightarrow> Inl err | Inr u \<Rightarrow> Inr R, w4)
          \<and> filter is_strategy (calls w4) =
              filter is_strategy (calls w) @ [BurnCall, SoftCall, CopyCall video out])
       \<and> property ''videoWithSubtitles'' R = Some out
       \<and> property ''degraded'' R = None"
proof -
  have s1: "filter is_strategy (calls w1) = filter is_strategy (calls w)"
    using save by (rule saveSubtitleFile_strategies)
  have s2: "filter is_strategy (calls w2) = filter is_strategy (calls w) @ [BurnCall]"
    using burn_strategies [OF burn] s1 by simp
  have s3: "filter is_strategy (calls w3) = filter is_strategy (calls w) @ [BurnCall, SoftCall]"
    using soft_strategies [OF soft] s2 by simp
  have s4: "filter is_strategy (calls w4) =
      filter is_strategy (calls w) @ [BurnCall, SoftCall, CopyCall video out]"
    using copy_strategies [OF copy] s3 by simp
  have run: "processSubtitles P scriptText videoDuration outputDir videoId opts w =
      (case rb of
         Inr p \<Rightarrow> (Inr R, w2)
       | Inl e \<Rightarrow>
          (case rs of
             Inr p \<Rightarrow> (Inr R, w3)
           | Inl e' \<Rightarrow> (case rc of Inl err \<Rightarrow> Inl err | Inr u \<Rightarrow> Inr R, w4)))"
    using add video hard save burn soft copy
    by (simp add: processSubtitles_def Let_def truthy_def content_def sp_def out_def R_def
        split: sum.splits)
  show ?thesis
    by (simp add: run s2 s3 s4) (simp add: R_def property_def)
qed

theorem hard_mode_strategy_order_witness:
  "fst (burnSubtitlesIntoVideo soft_only_engine ''in.mp4''
          (path_join ''out'' (''v1'' @ ''_subtitles.'' @ opt_format hard_options))
          (path_join ''out'' (''v1'' @ ''_with_subtitles.mp4''))
          (snd (saveSubtitleFile soft_only_engine
                  (createSmartSubtitles ''Hi.'' 10 (opt_format hard_options))
                  (path_join ''out'' (''v1'' @ ''_subtitles.'' @ opt_format hard_options))
                  one_video)))
     = Inl (EngineError ''burn failed'')
   \<and> fst (processSubtitles soft_only_engine ''Hi.'' 10 ''out'' ''v1'' hard_options one_video) =
     Inr [(''subtitlePath'', ''out/v1_subtitles.srt''),
          (''subtitleContent'', createSmartSubtitles ''Hi.'' 10 ''srt''),
          (''format'', ''srt''),
          (''videoWithSubtitles'', ''out/v1_with_subtitles.mp4'')]
   \<and> filter is_strategy
        (calls (snd (processSubtitles soft_only_engine ''Hi.'' 10 ''out'' ''v1'' hard_options
           one_video))) = [BurnCall, SoftCall]"
proof -
  let ?P = soft_only_engine
  let ?content = "createSmartSubtitles ''Hi.'' 10 (opt_format hard_options)"
  let ?sp = "path_join ''out'' (''v1'' @ ''_subtitles.'' @ opt_format hard_options)"
  let ?out = "path_join ''out'' (''v1'' @ ''_with_subtitles.mp4'')"
  let ?s1 = "saveSubtitleFile ?P ?content ?sp one_video"
  let ?s2 = "burnSubtitlesIntoVideo ?P ''in.mp4'' ?sp ?out (snd ?s1)"
  let ?s3 = "addSoftSubtitles ?P ''in.mp4'' ?sp ?out (snd ?s2)"
  let ?s4 = "copyFileSync ?P ''in.mp4'' ?out (snd ?s3)"
  have o1: "addToVideo hard_options" by (simp add: hard_options_def)
  have o2: "videoPath hard_options = Some ''in.mp4''" by (simp add: hard_options_def)
  have o3: "''in.mp4'' \<noteq> []" by simp
  have o4: "subtitleType hard_options \<noteq> ''soft''" by (simp add: hard_options_def)
  have f1: "fst ?s1 = Inr ?sp" by code_simp
  have f2: "fst ?s2 = Inl (EngineError ''burn failed'')" by code_simp
  have f3: "fst ?s3 = Inr ?out" by code_simp
  have h1: "?s1 = (Inr ?sp, snd ?s1)" using f1 by (rule pair_from_fst)
  have h2: "?s2 = (Inl (EngineError ''burn failed''), snd ?s2)" using f2 by (rule pair_from_fst)
  have h3: "?s3 = (Inr ?out, snd ?s3)" using f3 by (rule pair_from_fst)
  have h4: "?s4 = (fst ?s4, snd ?s4)" by simp
  have c0: "calls one_video = []" by (simp add: one_video_def)
  from hard_mode_strategy_order [where e = "EngineError ''burn failed''" and p' = ?out,
      OF o1 o2 o3 o4 h1 h2 h3 h4]
  have "processSubtitles ?P ''Hi.'' 10 ''out'' ''v1'' hard_options one_video =
      (Inr [(''subtitlePath'', ?sp), (''subtitleContent'', ?content),
            (''format'', opt_format hard_options), (''videoWithSubtitles'', ?out)], snd ?s3)
    \<and> filter is_strategy (calls (snd ?s3)) = [BurnCall, SoftCall]"
    by (simp add: c0)
  with f2 show ?thesis by (simp add: path_join_def hard_options_def)
qed

subsection \<open>Missing input files\<close>

text \<open>
  Claim C8, as stated, asks that a muxing invocation with a missing input fails at once and
  tries no further strategy. With no source video on disk, \<^verbatim>\<open>processSubtitles\<close> in hard
  mode calls burning, then the soft track, then the copy, and fails with the error of the
  copy.
\<close>

theorem missing_input_counterexample:
  "fst (processSubtitles failing_engine ''Hi.'' 10 ''out'' ''v1'' hard_options no_files) =
     Inl (CopyError ''in.mp4'')
   \<and> calls (snd (processSubtitles failing_engine ''Hi.'' 10 ''out'' ''v1'' hard_options
        no_files)) =
       [WriteCall ''out/v1_subtitles.srt'', BurnCall, SoftCall,
        CopyCall ''in.mp4'' ''out/v1_with_subtitles.mp4'']"
  by code_simp

text \<open>
  Claim C8, amended. Each rendering strategy checks both input paths when it starts and, if
  either is missing, is rejected with the not-found error of that path without running the
  engine and without touching a file. \<^verbatim>\<open>processSubtitles\<close> handles this rejection like any
  other: in hard mode with the source video missing it still calls the soft track and then
  the copy, the engine is never run, and the call fails with the error of the copy.
\<close>

theorem missing_input_per_strategy:
  fixes P scriptText videoDuration outputDir videoId opts w
  defines "content \<equiv> createSmartSubtitles scriptText videoDuration (opt_format opts)"
    and "sp \<equiv> path_join outputDir (videoId @ ''_subtitles.'' @ opt_format opts)"
    and "out \<equiv> path_join outputDir (videoId @ ''_with_subtitles.mp4'')"
  shows "(files wa va = None \<or> files wa sb = None \<longrightarrow>
            burnSubtitlesIntoVideo P va sb outa wa =
              (Inl (if files wa va = None then VideoFileNotFound va
                    else SubtitleFileNotFound sb),
               wa\<lparr>calls := calls wa @ [BurnCall]\<rparr>)
          \<and> addSoftSubtitles P va sb outa wa =
              (Inl (if files wa va = None then VideoFileNotFound va
                    else SubtitleFileNotFound sb),
               wa\<lparr>calls := calls wa @ [SoftCall]\<rparr>))
       \<and> (addToVideo opts \<and> videoPath opts = Some video \<and> video \<noteq> []
            \<and> subtitleType opts \<noteq> ''soft''
            \<and> saveSubtitleFile P content sp w = (Inr sp, ws) \<and> files ws video = None \<longrightarrow>
            processSubtitles P scriptText videoDuration outputDir videoId opts w =
              (Inl (CopyError video),
               ws\<lparr>calls := calls ws @ [BurnCall, SoftCall, CopyCall video out]\<rparr>))"
proof -
  have pipeline: "processSubtitles P scriptText videoDuration outputDir videoId opts w =
      (Inl (CopyError video),
       ws\<lparr>calls := calls ws @ [BurnCall, SoftCall, CopyCall video out]\<rparr>)"
    if o: "addToVideo opts" "videoPath opts = Some video" "video \<noteq> []"
      "subtitleType opts \<noteq> ''soft''"
      and save: "saveSubtitleFile P content sp w = (Inr sp, ws)"
      and missing: "files ws video = None"
  proof -
    let ?w2 = "ws\<lparr>calls := calls ws @ [BurnCall]\<rparr>"
    let ?w3 = "?w2\<lparr>calls := calls ?w2 @ [SoftCall]\<rparr>"
    have b: "burnSubtitlesIntoVideo P video sp out ws = (Inl (VideoFileNotFound video), ?w2)"
      using burn_missing [of ws video sp P out] missing by simp
    have s: "addSoftSubtitles P video sp out ?w2 = (Inl (VideoFileNotFound video), ?w3)"
      using soft_missing [of ?w2 video sp P out] missing by simp
    have c: "copyFileSync P video out ?w3 =
        (Inl (CopyError video), ?w3\<lparr>calls := calls ?w3 @ [CopyCall video out]\<rparr>)"
      using copy_missing [of ?w3 video P out] missing by simp
    show ?thesis
      using o save b s c
      by (simp add: processSubtitles_def Let_def truthy_def content_def sp_def out_def)
  qed
  show ?thesis
    using burn_missing [of wa va sb P outa] soft_missing [of wa va sb P outa] pipeline
    by blast
qed

theorem missing_input_per_strategy_witness:
  "files no_files ''in.mp4'' = None
   \<and> burnSubtitlesIntoVideo failing_engine ''in.mp4'' ''s.srt'' ''o.mp4'' no_files =
       (Inl (VideoFileNotFound ''in.mp4''), no_files\<lparr>calls := [BurnCall]\<rparr>)
   \<and> addSoftSubtitles failing_engine ''in.mp4'' ''s.srt'' ''o.mp4'' no_files =
       (Inl (VideoFileNotFound ''in.mp4''), no_files\<lparr>calls := [SoftCall]\<rparr>)
   \<and> fst (processSubtitles failing_engine ''Hi.'' 10 ''out'' ''v1'' hard_options no_files) =
       Inl (CopyError ''in.mp4'')"
proof -
  let ?P = failing_engine
  let ?content = "createSmartSubtitles ''Hi.'' 10 (opt_format hard_options)"
  let ?sp = "path_join ''out'' (''v1'' @ ''_subtitles.'' @ opt_format hard_options)"
  let ?s1 = "saveSubtitleFile ?P ?content ?sp no_files"
  have m: "files no_files ''in.mp4'' = None" by (simp add: no_files_def)
  have c0: "calls no_files = []" by (simp add: no_files_def)
  have o: "addToVideo hard_options" "videoPath hard_options = Some ''in.mp4''"
    "''in.mp4'' \<noteq> []" "subtitleType hard_options \<noteq> ''soft''"
    by (simp_all add: hard_options_def)
  have f1: "fst ?s1 = Inr ?sp" by code_simp
  have h1: "?s1 = (Inr ?sp, snd ?s1)" using f1 by (rule pair_from_fst)
  have m1: "files (snd ?s1) ''in.mp4'' = None" by code_simp
  from missing_input_per_strategy [where wa = no_files and va = "''in.mp4''"
      and sb = "''s.srt''" and P = ?P and outa = "''o.mp4''" and opts = hard_options
      and video = "''in.mp4''" and scriptText = "''Hi.''" and videoDuration = 10
      and outputDir = "''out''" and videoId = "''v1''" and w = no_files and ws = "snd ?s1"]
    m o h1 m1 c0
  show ?thesis by simp
qed

end
